theory Spec2Isabelle
  imports Complex_Main "HOL-Library.Char_ord" "HOL-Library.List_Lexorder"
begin

section \<open>Python values: exceptions, floats, strings\<close>

text \<open>
  The exceptions that \<^verbatim>\<open>newaccuracycheck.py\<close> raises itself or receives from the
  interpreter, each with its message. \<open>LibraryError\<close> stands for any exception raised
  inside pandas, scikit-learn or the operating system.
\<close>

datatype error =
    FileNotFoundError string
  | ValueError string
  | TypeError string
  | AttributeError string
  | KeyError string
  | IndexError string
  | LibraryError string

text \<open>\<^verbatim>\<open>str(e)\<close>: the message; a \<^verbatim>\<open>KeyError\<close> prints the repr of its key.\<close>

fun str_of_error :: "error \<Rightarrow> string" where
  "str_of_error (FileNotFoundError m) = m"
| "str_of_error (ValueError m) = m"
| "str_of_error (TypeError m) = m"
| "str_of_error (AttributeError m) = m"
| "str_of_error (KeyError k) = [CHR 0x27] @ k @ [CHR 0x27]"
| "str_of_error (IndexError m) = m"
| "str_of_error (LibraryError m) = m"

text \<open>
  A Python float: a finite value, an infinity or NaN. Only comparison is used by the
  program; no arithmetic on floats happens in the repository's own code.
\<close>

datatype float64 = Finite real | PosInf | NegInf | NaN

text \<open>\<^verbatim>\<open>x > y\<close> on floats: false as soon as one side is NaN.\<close>

fun float_gt :: "float64 \<Rightarrow> float64 \<Rightarrow> bool" where
  "float_gt (Finite x) (Finite y) = (y < x)"
| "float_gt PosInf (Finite y) = True"
| "float_gt PosInf NegInf = True"
| "float_gt (Finite x) NegInf = True"
| "float_gt _ _ = False"

text \<open>
  \<^verbatim>\<open>str.lower\<close>. Strings are ASCII texts here: the letters A to Z are lowered and
  every other character is kept. (Python also lowers letters outside ASCII; no string
  becomes empty, or stops being empty, by either.)
\<close>

definition char_lower :: "char \<Rightarrow> char" where
  "char_lower c =
     (let n = (of_char c :: nat) in if 65 \<le> n \<and> n \<le> 90 then char_of (n + 32) else c)"

definition lower :: "string \<Rightarrow> string" where
  "lower s = map char_lower s"

text \<open>
  \<^verbatim>\<open>s.replace(old, new)\<close>: every non-overlapping occurrence of \<open>old\<close>, from the left.
  With an empty \<open>old\<close> Python puts \<open>new\<close> before every character and at the end.
\<close>

fun replace_nonempty :: "string \<Rightarrow> string \<Rightarrow> string \<Rightarrow> string" where
  "replace_nonempty old new [] = []"
| "replace_nonempty old new (c # cs) =
     (if old \<noteq> [] \<and> take (length old) (c # cs) = old
      then new @ replace_nonempty old new (drop (length old) (c # cs))
      else c # replace_nonempty old new cs)"

definition str_replace :: "string \<Rightarrow> string \<Rightarrow> string \<Rightarrow> string" where
  "str_replace s old new =
     (if old = [] then new @ concat (map (\<lambda>c. c # new) s) else replace_nonempty old new s)"

section \<open>\<^verbatim>\<open>os.path\<close> on a POSIX system\<close>

text \<open>\<^verbatim>\<open>p.rfind(c)\<close>: the last index of \<open>c\<close> in \<open>p\<close>, or \<open>-1\<close>.\<close>

fun rfind_from :: "string \<Rightarrow> char \<Rightarrow> int \<Rightarrow> int \<Rightarrow> int" where
  "rfind_from [] c i found = found"
| "rfind_from (x # xs) c i found = rfind_from xs c (i + 1) (if x = c then i else found)"

definition rfind :: "string \<Rightarrow> char \<Rightarrow> int" where
  "rfind p c = rfind_from p c 0 (-1)"

text \<open>
  \<^verbatim>\<open>os.path.splitext\<close> (\<^verbatim>\<open>genericpath._splitext\<close> with separator \<open>/\<close>): the
  extension starts at the last dot of the last path component, unless that component
  consists of leading dots only up to there.
\<close>

definition splitext :: "string \<Rightarrow> string \<times> string" where
  "splitext p =
     (let sepIndex = rfind p (CHR ''/'');
          dotIndex = rfind p (CHR ''.'')
      in if dotIndex > sepIndex \<and>
            list_ex (\<lambda>ch. ch \<noteq> CHR ''.'')
              (take (nat (dotIndex - (sepIndex + 1))) (drop (nat (sepIndex + 1)) p))
         then (take (nat dotIndex) p, drop (nat dotIndex) p)
         else (p, []))"

section \<open>The environment and the state of a run\<close>

text \<open>
  What the program reads from outside: the environment variable, the file system, the
  workbook as pandas parses it, and the library functions applied to cell values and to
  a pair of texts. A cell value has an arbitrary type \<open>'v\<close>; \<open>isnull\<close> is
  \<^verbatim>\<open>pd.isnull\<close> and \<open>py_str\<close> is \<^verbatim>\<open>str\<close> on it. \<open>tfidf_linear_kernel a b\<close> is
  \<^verbatim>\<open>linear_kernel(m[0], m[1])[0, 0]\<close> for \<^verbatim>\<open>m = vectorizer.fit_transform([a, b])\<close>, or the
  exception either call raises. \<open>ExcelWriter p\<close> is the exception raised while the report
  is written to \<open>p\<close>, if any; a workbook counts as written once the writer has finished.
  Paths follow the POSIX rules.
\<close>

type_synonym 'v row = "(string \<times> 'v) list"

type_synonym 'v dataframe = "(int \<times> 'v row) list"

type_synonym 'v workbook = "(string \<times> (error + 'v row list)) list"

record 'v env =
  getenv_EXCEL_FILE_PATH :: "string option"
  os_path_exists :: "string \<Rightarrow> bool"
  os_path_isfile :: "string \<Rightarrow> bool"
  os_path_abspath :: "string \<Rightarrow> string"
  ExcelFile :: "string \<Rightarrow> error + 'v workbook"
  isnull :: "'v \<Rightarrow> bool"
  py_str :: "'v \<Rightarrow> string"
  tfidf_linear_kernel :: "string \<Rightarrow> string \<Rightarrow> error + float64"
  ExcelWriter :: "string \<Rightarrow> error option"

text \<open>The four lists that \<^verbatim>\<open>process_sheet\<close> fills, and the columns of the report.\<close>

record results =
  Sheet_Name :: "string list"
  Row :: "int list"
  Cosine_Similarity :: "float64 list"
  Result :: "string list"

datatype level = INFO | ERROR

text \<open>
  The analyzer object together with what the run changes outside it: \<open>logger\<close> tells
  whether the attribute \<^verbatim>\<open>self.logger\<close> has been assigned, \<open>log_file\<close> holds the records
  appended to \<^verbatim>\<open>text_similarity.log\<close> (level and message; the time stamp is left out),
  \<open>vectorizer_calls\<close> the arguments of every \<^verbatim>\<open>fit_transform\<close> call, and \<open>written\<close> the
  workbooks written, each with its path and its sheet \<^verbatim>\<open>Results\<close>.
\<close>

record state =
  excel_file_path :: string
  logger :: bool
  log_file :: "(level \<times> string) list"
  vectorizer_calls :: "(string \<times> string) list"
  written :: "(string \<times> results) list"

definition initial_state :: state where
  "initial_state =
     \<lparr>excel_file_path = [], logger = False, log_file = [], vectorizer_calls = [], written = []\<rparr>"

text \<open>
  \<^verbatim>\<open>self.logger.error(msg)\<close> and \<^verbatim>\<open>self.logger.info(msg)\<close>: reading the attribute
  before \<^verbatim>\<open>__init__\<close> has assigned it raises \<^verbatim>\<open>AttributeError\<close>.
\<close>

definition no_logger :: error where
  "no_logger =
     AttributeError
       ([CHR 0x27] @ ''TextSimilarityAnalyzer'' @ [CHR 0x27] @ '' object has no attribute '' @
        [CHR 0x27] @ ''logger'' @ [CHR 0x27])"

definition logger_log :: "level \<Rightarrow> string \<Rightarrow> state \<Rightarrow> error + state" where
  "logger_log lvl msg s =
     (if logger s then Inr (s\<lparr>log_file := log_file s @ [(lvl, msg)]\<rparr>) else Inl no_logger)"

text \<open>
  The handler \<^verbatim>\<open>except Exception as e: self.logger.error(prefix + str(e)); raise\<close>:
  the caught exception is raised again once logged; an exception of the logging call
  itself replaces it.
\<close>

definition log_and_reraise :: "string \<Rightarrow> error \<Rightarrow> state \<Rightarrow> error \<times> state" where
  "log_and_reraise prefix e s =
     (case logger_log ERROR (prefix @ str_of_error e) s of
        Inl e' \<Rightarrow> (e', s)
      | Inr s' \<Rightarrow> (e, s'))"

section \<open>\<^verbatim>\<open>validate_excel_path\<close> and \<^verbatim>\<open>__init__\<close>\<close>

text \<open>The body of the \<^verbatim>\<open>try\<close> block; \<^verbatim>\<open>os.path.exists(None)\<close> raises \<^verbatim>\<open>TypeError\<close>.\<close>

definition validate_excel_path_body :: "'v env \<Rightarrow> string option \<Rightarrow> error + string" where
  "validate_excel_path_body env path =
     (case path of
        None \<Rightarrow> Inl (TypeError ''stat: path should be string, bytes, os.PathLike or integer, not NoneType'')
      | Some p \<Rightarrow>
          if \<not> os_path_exists env p then Inl (FileNotFoundError (''File not found: '' @ p))
          else if \<not> os_path_isfile env p then Inl (ValueError (''Not a file: '' @ p))
          else let extension = snd (splitext p)
               in if lower extension \<notin> set [''.xlsx'', ''.xls'']
                  then Inl (ValueError (''Not a valid Excel file: '' @ p))
                  else Inr (os_path_abspath env p))"

definition validate_excel_path ::
  "'v env \<Rightarrow> string option \<Rightarrow> state \<Rightarrow> (error + string) \<times> state" where
  "validate_excel_path env path s =
     (case validate_excel_path_body env path of
        Inr p \<Rightarrow> (Inr p, s)
      | Inl e \<Rightarrow>
          (case log_and_reraise ''Error validating Excel path: '' e s of
             (e', s') \<Rightarrow> (Inl e', s')))"

text \<open>\<^verbatim>\<open>setup_logger\<close> opens the log file for appending and returns the logger.\<close>

definition setup_logger :: "state \<Rightarrow> state" where
  "setup_logger s = s\<lparr>logger := True\<rparr>"

text \<open>
  \<^verbatim>\<open>__init__\<close>: the path is validated first, then the vectorizer is created, and the
  logger is assigned last.
\<close>

definition init :: "'v env \<Rightarrow> state \<Rightarrow> (error + unit) \<times> state" where
  "init env s =
     (case validate_excel_path env (getenv_EXCEL_FILE_PATH env) s of
        (Inl e, s1) \<Rightarrow> (Inl e, s1)
      | (Inr p, s1) \<Rightarrow> (Inr (), setup_logger (s1\<lparr>excel_file_path := p\<rparr>)))"

section \<open>\<^verbatim>\<open>calculate_similarity\<close>\<close>

text \<open>
  The normalisation of one answer, written twice in the source:
  \<^verbatim>\<open>str(answer).lower() if not pd.isnull(answer) else ""\<close>.
\<close>

definition normalize_answer :: "'v env \<Rightarrow> 'v \<Rightarrow> string" where
  "normalize_answer env answer =
     (if \<not> isnull env answer then lower (py_str env answer) else [])"

text \<open>
  A Python string is true when it is not empty. The vectorizer is called only in the
  first branch; the call is recorded in \<open>vectorizer_calls\<close> before its outcome is known.
\<close>

definition calculate_similarity ::
  "'v env \<Rightarrow> 'v \<Rightarrow> 'v \<Rightarrow> state \<Rightarrow> (error + float64) \<times> state" where
  "calculate_similarity env answer1 answer2 s =
     (let a1 = normalize_answer env answer1;
          a2 = normalize_answer env answer2
      in if a1 \<noteq> [] \<and> a2 \<noteq> []
         then (let s1 = s\<lparr>vectorizer_calls := vectorizer_calls s @ [(a1, a2)]\<rparr>
               in case tfidf_linear_kernel env a1 a2 of
                    Inr cosine_sim \<Rightarrow> (Inr cosine_sim, s1)
                  | Inl e \<Rightarrow>
                      (case log_and_reraise ''Error calculating similarity: '' e s1 of
                         (e', s2) \<Rightarrow> (Inl e', s2)))
         else (Inr (Finite 0), s))"

section \<open>\<^verbatim>\<open>process_sheet\<close>\<close>

definition column1 :: string where
  "column1 = ''Active Voice''"

definition column2 :: string where
  "column2 = ''Passive Voice''"

text \<open>\<^verbatim>\<open>row[column]\<close> on the row that \<^verbatim>\<open>iterrows\<close> yields: a missing label raises.\<close>

definition getitem :: "'v row \<Rightarrow> string \<Rightarrow> error + 'v" where
  "getitem row column =
     (case map_of row column of None \<Rightarrow> Inl (KeyError column) | Some v \<Rightarrow> Inr v)"

definition empty_results :: results where
  "empty_results = \<lparr>Sheet_Name = [], Row = [], Cosine_Similarity = [], Result = []\<rparr>"

text \<open>The four \<^verbatim>\<open>append\<close> calls at the end of the loop body.\<close>

definition append_row :: "results \<Rightarrow> string \<Rightarrow> int \<Rightarrow> float64 \<Rightarrow> string \<Rightarrow> results" where
  "append_row results sheet_name n cosine_sim result =
     \<lparr>Sheet_Name = Sheet_Name results @ [sheet_name],
      Row = Row results @ [n],
      Cosine_Similarity = Cosine_Similarity results @ [cosine_sim],
      Result = Result results @ [result]\<rparr>"

text \<open>
  The loop \<^verbatim>\<open>for index, row in dataframe.iterrows()\<close>: a data frame is the list of its
  rows, each with its index label (an integer here, so that \<^verbatim>\<open>index + 1\<close> is defined).
\<close>

fun process_rows ::
  "'v env \<Rightarrow> string \<Rightarrow> 'v dataframe \<Rightarrow> results \<Rightarrow> state \<Rightarrow> (error + results) \<times> state" where
  "process_rows env sheet_name [] results s = (Inr results, s)"
| "process_rows env sheet_name ((index, row) # rest) results s =
     (case getitem row column1 of
        Inl e \<Rightarrow> (Inl e, s)
      | Inr v1 \<Rightarrow>
          (case getitem row column2 of
             Inl e \<Rightarrow> (Inl e, s)
           | Inr v2 \<Rightarrow>
               (case calculate_similarity env v1 v2 s of
                  (Inl e, s1) \<Rightarrow> (Inl e, s1)
                | (Inr cosine_sim, s1) \<Rightarrow>
                    process_rows env sheet_name rest
                      (append_row results sheet_name (index + 1) cosine_sim
                         (if float_gt cosine_sim (Finite 0.5) then ''Passed'' else ''Failed''))
                      s1)))"

definition process_sheet ::
  "'v env \<Rightarrow> string \<Rightarrow> 'v dataframe \<Rightarrow> state \<Rightarrow> (error + results) \<times> state" where
  "process_sheet env sheet_name dataframe s =
     (case process_rows env sheet_name dataframe empty_results s of
        (Inr results, s1) \<Rightarrow> (Inr results, s1)
      | (Inl e, s1) \<Rightarrow>
          (case log_and_reraise
                  (''Error processing sheet '' @ [CHR 0x27] @ sheet_name @ [CHR 0x27] @ '': '') e s1 of
             (e', s2) \<Rightarrow> (Inl e', s2)))"

section \<open>\<^verbatim>\<open>analyze_excel_file\<close>\<close>

text \<open>
  \<^verbatim>\<open>xls.parse(sheet_name)\<close> numbers the rows of a sheet from 0 (the default index of
  pandas).
\<close>

definition parse :: "'v row list \<Rightarrow> 'v dataframe" where
  "parse rows = zip (map int [0..<length rows]) rows"

text \<open>The loop over \<^verbatim>\<open>xls.sheet_names\<close>: each sheet is parsed, then processed.\<close>

fun process_sheets ::
  "'v env \<Rightarrow> 'v workbook \<Rightarrow> results list \<Rightarrow> state \<Rightarrow> (error + results list) \<times> state" where
  "process_sheets env [] all_results s = (Inr all_results, s)"
| "process_sheets env ((sheet_name, parsed) # rest) all_results s =
     (case parsed of
        Inl e \<Rightarrow> (Inl e, s)
      | Inr rows \<Rightarrow>
          (case process_sheet env sheet_name (parse rows) s of
             (Inl e, s1) \<Rightarrow> (Inl e, s1)
           | (Inr sheet_results, s1) \<Rightarrow>
               process_sheets env rest (all_results @ [sheet_results]) s1))"

text \<open>
  The data frame of the report: for each key of \<^verbatim>\<open>all_results[0]\<close>, the lists of all
  sheets under that key, concatenated. \<^verbatim>\<open>all_results[0]\<close> raises on the empty list.
\<close>

definition results_df :: "results list \<Rightarrow> error + results" where
  "results_df all_results =
     (case all_results of
        [] \<Rightarrow> Inl (IndexError ''list index out of range'')
      | first # others \<Rightarrow>
          Inr \<lparr>Sheet_Name = concat (map Sheet_Name all_results),
               Row = concat (map Row all_results),
               Cosine_Similarity = concat (map Cosine_Similarity all_results),
               Result = concat (map Result all_results)\<rparr>)"

definition analyze_excel_file_body :: "'v env \<Rightarrow> state \<Rightarrow> (error + unit) \<times> state" where
  "analyze_excel_file_body env s =
     (case ExcelFile env (excel_file_path s) of
        Inl e \<Rightarrow> (Inl e, s)
      | Inr xls \<Rightarrow>
          (case process_sheets env xls [] s of
             (Inl e, s1) \<Rightarrow> (Inl e, s1)
           | (Inr all_results, s1) \<Rightarrow>
               (case results_df all_results of
                  Inl e \<Rightarrow> (Inl e, s1)
                | Inr df \<Rightarrow>
                    (let output_excel_file =
                           str_replace (excel_file_path s1) ''.xlsx'' ''-results.xlsx''
                     in case ExcelWriter env output_excel_file of
                          Some e \<Rightarrow> (Inl e, s1)
                        | None \<Rightarrow>
                            (let s2 = s1\<lparr>written := written s1 @ [(output_excel_file, df)]\<rparr>
                             in case logger_log INFO (''Results saved to: '' @ output_excel_file) s2 of
                                  Inl e \<Rightarrow> (Inl e, s2)
                                | Inr s3 \<Rightarrow> (Inr (), s3))))))"

definition analyze_excel_file :: "'v env \<Rightarrow> state \<Rightarrow> (error + unit) \<times> state" where
  "analyze_excel_file env s =
     (case analyze_excel_file_body env s of
        (Inr u, s1) \<Rightarrow> (Inr u, s1)
      | (Inl e, s1) \<Rightarrow>
          (case log_and_reraise ''An error occurred during analysis: '' e s1 of
             (e', s2) \<Rightarrow> (Inl e', s2)))"

text \<open>
  The two statements of the main block that do the work:
  \<^verbatim>\<open>analyzer = TextSimilarityAnalyzer(); analyzer.analyze_excel_file()\<close>.
\<close>

definition run :: "'v env \<Rightarrow> (error + unit) \<times> state" where
  "run env =
     (case init env initial_state of
        (Inl e, s) \<Rightarrow> (Inl e, s)
      | (Inr u, s) \<Rightarrow> analyze_excel_file env s)"

section \<open>Binary64 arithmetic\<close>

text \<open>
  The library computes in IEEE 754 doubles: the result of every single operation is the
  double nearest to the exact result, ties going to the even significand. A double is
  modelled by the real number it denotes; the values that occur here are far from
  overflow and from the subnormal range, which are left out.
\<close>







text \<open>
  An arithmetic: how the result of an operation is rounded, the square root, and the
  logarithm of 3/2 (the only logarithm that a corpus of two documents needs, besides
  that of 1). \<open>exact_arith\<close> computes in the real numbers, \<open>double_arith\<close> in doubles;
  its logarithm is the double \<^verbatim>\<open>0x1.9f323ecbf984cp-2\<close>.
\<close>

record arith =
  rnd :: "real \<Rightarrow> real"
  root :: "real \<Rightarrow> real"
  ln_3_2 :: real



section \<open>The vectorizer and the kernel\<close>

text \<open>
  Modelled from the spec: the Vectorizer (section 4.2) and the similarity of two term
  vectors (section 4.3). The source takes both from scikit-learn, as
  \<^verbatim>\<open>TfidfVectorizer(stop_words='english', min_df=1)\<close> and \<^verbatim>\<open>linear_kernel\<close>, and their
  code is not among the source files. Where the specification leaves a detail open, the
  defaults of the library that the source does not override are followed: a token is a
  run of two or more letters, digits or underscores; the inverse document frequency is
  smoothed; every row is scaled to length one, so that the kernel (a plain dot product)
  is the cosine; and fitting raises \<^verbatim>\<open>ValueError\<close> when no term is left. The list of
  stop words is a parameter.
\<close>

definition word_char :: "char \<Rightarrow> bool" where
  "word_char c =
     (let n = (of_char c :: nat)
      in (48 \<le> n \<and> n \<le> 57) \<or> (65 \<le> n \<and> n \<le> 90) \<or> n = 95 \<or> (97 \<le> n \<and> n \<le> 122))"

text \<open>Modelled from the spec: the maximal runs of word characters of a text.\<close>

fun word_runs :: "string \<Rightarrow> string \<Rightarrow> string list" where
  "word_runs cur [] = (if cur = [] then [] else [cur])"
| "word_runs cur (c # cs) =
     (if word_char c then word_runs (cur @ [c]) cs
      else (if cur = [] then [] else [cur]) @ word_runs [] cs)"

text \<open>Modelled from the spec: tokenization, then the stop words are discarded.\<close>

definition tokenize :: "string \<Rightarrow> string list" where
  "tokenize doc = filter (\<lambda>t. 2 \<le> length t) (word_runs [] doc)"

definition analyze :: "string list \<Rightarrow> string \<Rightarrow> string list" where
  "analyze stop_words doc = filter (\<lambda>t. t \<notin> set stop_words) (tokenize doc)"

text \<open>
  Modelled from the spec: the vocabulary of the two documents of a row pair, in
  alphabetical order; with a minimum document frequency of 1 no term is pruned.
\<close>

definition vocabulary :: "string list \<Rightarrow> string list \<Rightarrow> string list" where
  "vocabulary d1 d2 = sort (remdups (d1 @ d2))"

definition document_frequency :: "string list \<Rightarrow> string list \<Rightarrow> string \<Rightarrow> nat" where
  "document_frequency d1 d2 t = (if t \<in> set d1 then 1 else 0) + (if t \<in> set d2 then 1 else 0)"

text \<open>
  Modelled from the spec: the inverse document frequency \<open>ln ((1 + 2) / (1 + df)) + 1\<close>
  over the two documents (a term of the vocabulary is in one of them or in both), and
  the weight of a term in a document, its frequency times this.
\<close>

definition idf :: "arith \<Rightarrow> nat \<Rightarrow> real" where
  "idf ar df = rnd ar ((if df = 2 then 0 else ln_3_2 ar) + 1)"

definition tfidf_row :: "arith \<Rightarrow> string list \<Rightarrow> string list \<Rightarrow> string list \<Rightarrow> real list" where
  "tfidf_row ar d1 d2 d =
     map (\<lambda>t. rnd ar (real (count_list d t) * idf ar (document_frequency d1 d2 t)))
       (vocabulary d1 d2)"

text \<open>A sum accumulated from the left, every partial sum rounded.\<close>

definition fl_sum :: "arith \<Rightarrow> real list \<Rightarrow> real" where
  "fl_sum ar xs = foldl (\<lambda>acc x. rnd ar (acc + x)) 0 xs"

text \<open>
  Modelled from the spec: a row divided by its magnitude, the square root of the sum of
  its squares; the zero vector stays as it is.
\<close>

definition normalize_l2 :: "arith \<Rightarrow> real list \<Rightarrow> real list" where
  "normalize_l2 ar row =
     (let total = fl_sum ar (map (\<lambda>w. rnd ar (w * w)) row)
      in if total = 0 then row
         else let magnitude = root ar total in map (\<lambda>w. rnd ar (w / magnitude)) row)"

text \<open>Modelled from the spec: the dot product of two rows.\<close>

definition linear_kernel :: "arith \<Rightarrow> real list \<Rightarrow> real list \<Rightarrow> real" where
  "linear_kernel ar x y = fl_sum ar (map (\<lambda>(v, w). rnd ar (v * w)) (zip x y))"

text \<open>
  Modelled from the spec: \<^verbatim>\<open>fit_transform([a, b])\<close> followed by
  \<^verbatim>\<open>linear_kernel(m[0], m[1])[0, 0]\<close>, the value that \<open>tfidf_linear_kernel\<close> of the
  environment stands for.
\<close>

definition tfidf_kernel :: "arith \<Rightarrow> string list \<Rightarrow> string \<Rightarrow> string \<Rightarrow> error + float64" where
  "tfidf_kernel ar stop_words a b =
     (let d1 = analyze stop_words a;
          d2 = analyze stop_words b
      in if vocabulary d1 d2 = []
         then Inl (ValueError ''empty vocabulary; perhaps the documents only contain stop words'')
         else Inr (Finite (linear_kernel ar
                (normalize_l2 ar (tfidf_row ar d1 d2 d1))
                (normalize_l2 ar (tfidf_row ar d1 d2 d2)))))"

text \<open>
  Between two states, the vectorizer has been called only with two non-empty texts.
\<close>

definition nonempty_calls_added :: "state \<Rightarrow> state \<Rightarrow> bool" where
  "nonempty_calls_added s s' =
     (\<exists>calls. vectorizer_calls s' = vectorizer_calls s @ calls \<and>
        (\<forall>(x, y) \<in> set calls. x \<noteq> [] \<and> y \<noteq> []))"

section \<open>Example inputs\<close>

text \<open>
  A small environment on which the definitions can be run: cells are optional texts, a
  missing cell is \<open>None\<close>; one workbook \<^verbatim>\<open>/data/book.xlsx\<close> exists. \<open>example_kernel\<close>
  stands in for the library's similarity on the few texts used below.
\<close>

definition example_row :: "string option \<Rightarrow> string option \<Rightarrow> string option row" where
  "example_row a b = [(''Active Voice'', a), (''Passive Voice'', b)]"

definition example_kernel :: "string \<Rightarrow> string \<Rightarrow> error + float64" where
  "example_kernel a b = (if a = b then Inr (Finite 1) else Inr (Finite (1/2)))"

definition example_workbook :: "string option workbook" where
  "example_workbook =
     [(''Sheet1'', Inr [example_row (Some ''Hello World'') (Some ''hello world''),
                        example_row (Some ''Hello'') None])]"

definition example_env :: "string option env" where
  "example_env =
     \<lparr>getenv_EXCEL_FILE_PATH = Some ''/data/book.xlsx'',
      os_path_exists = (\<lambda>p. p = ''/data/book.xlsx'' \<or> p = ''/data/book.xls'' \<or> p = ''/data''
                            \<or> p = ''/data/notes.txt''),
      os_path_isfile = (\<lambda>p. p = ''/data/book.xlsx'' \<or> p = ''/data/book.xls''
                            \<or> p = ''/data/notes.txt''),
      os_path_abspath = (\<lambda>p. p),
      ExcelFile = (\<lambda>p. Inr example_workbook),
      isnull = (\<lambda>v. v = None),
      py_str = (\<lambda>v. case v of None \<Rightarrow> ''None'' | Some t \<Rightarrow> t),
      tfidf_linear_kernel = example_kernel,
      ExcelWriter = (\<lambda>p. None)\<rparr>"

text \<open>
  The analyzer after \<^verbatim>\<open>__init__\<close> has succeeded on \<^verbatim>\<open>/data/book.xlsx\<close>; a workbook
  whose second sheet has no column \<^verbatim>\<open>Passive Voice\<close>; and environments that give this
  workbook, a workbook without sheets, and other values of the environment variable.
\<close>

definition example_state :: state where
  "example_state = initial_state\<lparr>excel_file_path := ''/data/book.xlsx'', logger := True\<rparr>"

definition incomplete_workbook :: "string option workbook" where
  "incomplete_workbook =
     [(''Sheet1'', Inr [example_row (Some ''Hello World'') (Some ''hello world'')]),
      (''Sheet2'', Inr [[(''Active Voice'', Some ''Hello'')]])]"

definition incomplete_env :: "string option env" where
  "incomplete_env = example_env\<lparr>ExcelFile := (\<lambda>p. Inr incomplete_workbook)\<rparr>"

definition no_sheets_env :: "string option env" where
  "no_sheets_env = example_env\<lparr>ExcelFile := (\<lambda>p. Inr [])\<rparr>"

definition env_with_path :: "string \<Rightarrow> string option env" where
  "env_with_path p = example_env\<lparr>getenv_EXCEL_FILE_PATH := Some p\<rparr>"




section \<open>What every operation leaves unchanged\<close>

lemma log_and_reraise_logger:
  "logger s \<Longrightarrow> log_and_reraise prefix e s = (e, s\<lparr>log_file := log_file s @ [(ERROR, prefix @ str_of_error e)]\<rparr>)"
  by (simp add: log_and_reraise_def logger_log_def)

lemma log_and_reraise_no_logger:
  "\<not> logger s \<Longrightarrow> log_and_reraise prefix e s = (no_logger, s)"
  by (simp add: log_and_reraise_def logger_log_def)

lemma log_and_reraise_keeps:
  "log_and_reraise prefix e s = (e', s') \<Longrightarrow>
     logger s' = logger s \<and> written s' = written s \<and> vectorizer_calls s' = vectorizer_calls s
     \<and> excel_file_path s' = excel_file_path s"
  by (cases "logger s") (auto simp: log_and_reraise_def logger_log_def)

lemma calculate_similarity_keeps:
  "calculate_similarity env a b s = (r, s') \<Longrightarrow>
     logger s' = logger s \<and> written s' = written s \<and> excel_file_path s' = excel_file_path s"
  by (auto simp: calculate_similarity_def Let_def split: if_splits sum.splits prod.splits
           dest!: log_and_reraise_keeps)

lemma calculate_similarity_empty:
  "normalize_answer env a = [] \<or> normalize_answer env b = [] \<Longrightarrow>
     calculate_similarity env a b s = (Inr (Finite 0), s)"
  by (auto simp: calculate_similarity_def Let_def)

lemma calculate_similarity_fst:
  "logger s \<Longrightarrow> logger s' \<Longrightarrow>
     fst (calculate_similarity env a b s) = fst (calculate_similarity env a b s')"
  by (auto simp: calculate_similarity_def Let_def log_and_reraise_logger split: sum.splits)

lemma process_rows_keeps:
  "process_rows env name df res s = (r, s') \<Longrightarrow>
     logger s' = logger s \<and> written s' = written s \<and> excel_file_path s' = excel_file_path s"
proof (induction df arbitrary: res s)
  case Nil
  then show ?case by simp
next
  case (Cons x df)
  obtain index row where x: "x = (index, row)" by (cases x)
  from Cons.prems show ?case
    unfolding x
    by (auto split: sum.splits prod.splits dest!: calculate_similarity_keeps Cons.IH)
qed

lemma process_rows_fst:
  "logger s \<Longrightarrow> logger s' \<Longrightarrow>
     fst (process_rows env name df res s) = fst (process_rows env name df res s')"
proof (induction df arbitrary: res s s')
  case Nil
  then show ?case by simp
next
  case (Cons x df)
  obtain index row where x: "x = (index, row)" by (cases x)
  show ?case
  proof (cases "getitem row column1")
    case (Inl e)
    then show ?thesis by (simp add: x)
  next
    case v1: (Inr v1)
    show ?thesis
    proof (cases "getitem row column2")
      case (Inl e)
      then show ?thesis by (simp add: x v1)
    next
      case v2: (Inr v2)
      obtain r1 s1 where c1: "calculate_similarity env v1 v2 s = (r1, s1)" by force
      obtain r2 s2 where c2: "calculate_similarity env v1 v2 s' = (r2, s2)" by force
      have r: "r1 = r2"
        using calculate_similarity_fst [OF Cons.prems, of env v1 v2] c1 c2 by simp
      have l: "logger s1" "logger s2"
        using calculate_similarity_keeps [OF c1] calculate_similarity_keeps [OF c2] Cons.prems
        by simp_all
      show ?thesis
        using Cons.IH [OF l] by (cases r2) (simp_all add: x v1 v2 c1 c2 r)
    qed
  qed
qed

lemma process_sheet_keeps:
  "process_sheet env name df s = (r, s') \<Longrightarrow>
     logger s' = logger s \<and> written s' = written s \<and> excel_file_path s' = excel_file_path s"
  by (auto simp: process_sheet_def split: sum.splits prod.splits
           dest!: process_rows_keeps log_and_reraise_keeps)

lemma process_sheet_fst:
  assumes "logger s" and "logger s'"
  shows "fst (process_sheet env name df s) = fst (process_sheet env name df s')"
proof -
  obtain r1 s1 where c1: "process_rows env name df empty_results s = (r1, s1)" by force
  obtain r2 s2 where c2: "process_rows env name df empty_results s' = (r2, s2)" by force
  have r: "r1 = r2"
    using process_rows_fst [OF assms, of env name df empty_results] c1 c2 by simp
  have l: "logger s1" "logger s2"
    using process_rows_keeps [OF c1] process_rows_keeps [OF c2] assms by simp_all
  show ?thesis
    by (cases r2) (simp_all add: process_sheet_def c1 c2 r log_and_reraise_logger l)
qed

section \<open>The result of the loop over the rows\<close>

lemma calculate_similarity_value:
  "calculate_similarity env v1 v2 s = (Inr c, s') \<Longrightarrow>
     (if normalize_answer env v1 \<noteq> [] \<and> normalize_answer env v2 \<noteq> []
      then tfidf_linear_kernel env (normalize_answer env v1) (normalize_answer env v2)
      else Inr (Finite 0)) = Inr c"
  by (auto simp: calculate_similarity_def Let_def split: if_splits sum.splits prod.splits)

lemma process_rows_shape:
  "process_rows env name df res s = (Inr res', s') \<Longrightarrow>
     \<exists>cs. list_all2
            (\<lambda>(index, row) c. \<exists>v1 v2.
                getitem row column1 = Inr v1 \<and> getitem row column2 = Inr v2 \<and>
                (if normalize_answer env v1 \<noteq> [] \<and> normalize_answer env v2 \<noteq> []
                 then tfidf_linear_kernel env (normalize_answer env v1) (normalize_answer env v2)
                 else Inr (Finite 0)) = Inr c)
            df cs \<and>
       res' = \<lparr>Sheet_Name = Sheet_Name res @ replicate (length df) name,
               Row = Row res @ map (\<lambda>(index, row). index + 1) df,
               Cosine_Similarity = Cosine_Similarity res @ cs,
               Result = Result res @
                 map (\<lambda>c. if float_gt c (Finite (1/2)) then ''Passed'' else ''Failed'') cs\<rparr>"
proof (induction df arbitrary: res s)
  case Nil
  then show ?case by simp
next
  case (Cons x df)
  let ?P = "\<lambda>(index, row) c. \<exists>v1 v2.
                getitem row column1 = Inr v1 \<and> getitem row column2 = Inr v2 \<and>
                (if normalize_answer env v1 \<noteq> [] \<and> normalize_answer env v2 \<noteq> []
                 then tfidf_linear_kernel env (normalize_answer env v1) (normalize_answer env v2)
                 else Inr (Finite 0)) = Inr c"
  obtain index row where x: "x = (index, row)" by (cases x)
  from Cons.prems obtain v1 v2 c s1 where
    g1: "getitem row column1 = Inr v1" and g2: "getitem row column2 = Inr v2" and
    step: "calculate_similarity env v1 v2 s = (Inr c, s1)" and
    rest: "process_rows env name df
             (append_row res name (index + 1) c
                (if float_gt c (Finite 0.5) then ''Passed'' else ''Failed'')) s1 = (Inr res', s')"
    unfolding x by (auto split: sum.splits prod.splits)
  have hd: "?P x c"
    using g1 g2 calculate_similarity_value [OF step] by (simp add: x)
  from Cons.IH [OF rest] obtain cs where
    cs: "list_all2 ?P df cs" and
    r: "res' = \<lparr>Sheet_Name = Sheet_Name res @ [name] @ replicate (length df) name,
               Row = Row res @ [index + 1] @ map (\<lambda>(index, row). index + 1) df,
               Cosine_Similarity = Cosine_Similarity res @ [c] @ cs,
               Result = Result res @
                 [if float_gt c (Finite (1/2)) then ''Passed'' else ''Failed''] @
                 map (\<lambda>c. if float_gt c (Finite (1/2)) then ''Passed'' else ''Failed'') cs\<rparr>"
    by (auto simp: append_row_def)
  have "list_all2 ?P (x # df) (c # cs)"
    using hd cs by simp
  moreover have "res' = \<lparr>Sheet_Name = Sheet_Name res @ replicate (length (x # df)) name,
               Row = Row res @ map (\<lambda>(index, row). index + 1) (x # df),
               Cosine_Similarity = Cosine_Similarity res @ (c # cs),
               Result = Result res @
                 map (\<lambda>c. if float_gt c (Finite (1/2)) then ''Passed'' else ''Failed'') (c # cs)\<rparr>"
    by (simp add: r x)
  ultimately show ?case by blast
qed

lemma nonempty_calls_added_same:
  "vectorizer_calls s' = vectorizer_calls s \<Longrightarrow> nonempty_calls_added s s'"
  by (simp add: nonempty_calls_added_def)

lemma nonempty_calls_added_trans:
  assumes "nonempty_calls_added s s1" and "nonempty_calls_added s1 s2"
  shows "nonempty_calls_added s s2"
proof -
  from assms obtain c1 c2 where
    c1: "vectorizer_calls s1 = vectorizer_calls s @ c1" "\<forall>(x, y) \<in> set c1. x \<noteq> [] \<and> y \<noteq> []" and
    c2: "vectorizer_calls s2 = vectorizer_calls s1 @ c2" "\<forall>(x, y) \<in> set c2. x \<noteq> [] \<and> y \<noteq> []"
    unfolding nonempty_calls_added_def by blast
  have "vectorizer_calls s2 = vectorizer_calls s @ (c1 @ c2)"
    by (simp add: c1 c2)
  moreover have "\<forall>(x, y) \<in> set (c1 @ c2). x \<noteq> [] \<and> y \<noteq> []"
    using c1 c2 by auto
  ultimately show ?thesis
    unfolding nonempty_calls_added_def by blast
qed

lemma nonempty_calls_added_notin:
  assumes "nonempty_calls_added s s'" and "a = [] \<or> b = []"
  shows "(a, b) \<notin> set (drop (length (vectorizer_calls s)) (vectorizer_calls s'))"
  using assms unfolding nonempty_calls_added_def by auto

lemma log_and_reraise_calls:
  "log_and_reraise prefix e s = (e', s') \<Longrightarrow> nonempty_calls_added s s'"
  by (rule nonempty_calls_added_same) (simp add: log_and_reraise_keeps)

lemma calculate_similarity_calls:
  "calculate_similarity env a b s = (r, s') \<Longrightarrow> nonempty_calls_added s s'"
  by (auto simp: calculate_similarity_def Let_def nonempty_calls_added_def
           split: if_splits sum.splits prod.splits dest!: log_and_reraise_keeps)

lemma process_rows_calls:
  "process_rows env name df res s = (r, s') \<Longrightarrow> nonempty_calls_added s s'"
proof (induction df arbitrary: res s)
  case Nil
  then show ?case by (simp add: nonempty_calls_added_same)
next
  case (Cons x df)
  obtain index row where x: "x = (index, row)" by (cases x)
  from Cons.prems show ?case
    unfolding x
    by (auto split: sum.splits prod.splits
             intro: nonempty_calls_added_same
             dest: calculate_similarity_calls
             dest!: Cons.IH elim: nonempty_calls_added_trans)
qed

lemma process_sheet_Inr:
  "process_sheet env name df s = (Inr res, s') \<Longrightarrow>
     process_rows env name df empty_results s = (Inr res, s')"
  by (auto simp: process_sheet_def split: sum.splits prod.splits)

lemma process_sheet_calls:
  "process_sheet env name df s = (r, s') \<Longrightarrow> nonempty_calls_added s s'"
  by (auto simp: process_sheet_def split: sum.splits prod.splits
           dest!: log_and_reraise_calls process_rows_calls elim: nonempty_calls_added_trans)

lemma process_sheet_shape:
  assumes "process_sheet env name df s = (Inr results, s')"
  shows "list_all2
            (\<lambda>(index, row) c. \<exists>v1 v2.
                getitem row column1 = Inr v1 \<and> getitem row column2 = Inr v2 \<and>
                (if normalize_answer env v1 \<noteq> [] \<and> normalize_answer env v2 \<noteq> []
                 then tfidf_linear_kernel env (normalize_answer env v1) (normalize_answer env v2)
                 else Inr (Finite 0)) = Inr c)
            df (Cosine_Similarity results)"
    and "Sheet_Name results = replicate (length df) name"
    and "Row results = map (\<lambda>(index, row). index + 1) df"
    and "Result results =
           map (\<lambda>c. if float_gt c (Finite (1/2)) then ''Passed'' else ''Failed'')
             (Cosine_Similarity results)"
proof -
  from process_rows_shape [OF process_sheet_Inr [OF assms]] obtain cs where
    cs: "list_all2
            (\<lambda>(index, row) c. \<exists>v1 v2.
                getitem row column1 = Inr v1 \<and> getitem row column2 = Inr v2 \<and>
                (if normalize_answer env v1 \<noteq> [] \<and> normalize_answer env v2 \<noteq> []
                 then tfidf_linear_kernel env (normalize_answer env v1) (normalize_answer env v2)
                 else Inr (Finite 0)) = Inr c)
            df cs" and
    r: "results = \<lparr>Sheet_Name = Sheet_Name empty_results @ replicate (length df) name,
               Row = Row empty_results @ map (\<lambda>(index, row). index + 1) df,
               Cosine_Similarity = Cosine_Similarity empty_results @ cs,
               Result = Result empty_results @
                 map (\<lambda>c. if float_gt c (Finite (1/2)) then ''Passed'' else ''Failed'') cs\<rparr>"
    by blast
  have c: "Cosine_Similarity results = cs"
    by (subst r) (simp add: empty_results_def)
  show "list_all2
            (\<lambda>(index, row) c. \<exists>v1 v2.
                getitem row column1 = Inr v1 \<and> getitem row column2 = Inr v2 \<and>
                (if normalize_answer env v1 \<noteq> [] \<and> normalize_answer env v2 \<noteq> []
                 then tfidf_linear_kernel env (normalize_answer env v1) (normalize_answer env v2)
                 else Inr (Finite 0)) = Inr c)
            df (Cosine_Similarity results)"
    using cs c by simp
  show "Sheet_Name results = replicate (length df) name"
    by (subst r) (simp add: empty_results_def)
  show "Row results = map (\<lambda>(index, row). index + 1) df"
    by (subst r) (simp add: empty_results_def)
  show "Result results =
           map (\<lambda>c. if float_gt c (Finite (1/2)) then ''Passed'' else ''Failed'')
             (Cosine_Similarity results)"
    unfolding c by (subst r) (simp add: empty_results_def)
qed

lemma float_gt_half:
  "float_gt c (Finite (1/2)) = (c = PosInf \<or> (\<exists>x. c = Finite x \<and> 1/2 < x))"
  by (cases c) simp_all

lemma parse_nth: "k < length rows \<Longrightarrow> parse rows ! k = (int k, rows ! k)"
  by (simp add: parse_def)

lemma length_parse: "length (parse rows) = length rows"
  by (simp add: parse_def)

section \<open>The verdict of a row\<close>

text \<open>
  Claim C6. In the results of a sheet, the verdict of every row is \<^verbatim>\<open>Passed\<close> exactly
  when its score is strictly greater than 0.5 (a finite value above one half, or positive
  infinity; never NaN), and \<^verbatim>\<open>Failed\<close> otherwise. A score of exactly 0.5 gives
  \<^verbatim>\<open>Failed\<close>. The threshold is the constant 0.5 of the source.
\<close>

theorem verdict_passed_iff_above_half:
  assumes "process_sheet env sheet_name dataframe s = (Inr results, s')"
      and "k < length dataframe"
  shows "length (Result results) = length dataframe \<and>
         length (Cosine_Similarity results) = length dataframe \<and>
         (Result results ! k = ''Passed'') =
           (Cosine_Similarity results ! k = PosInf \<or>
            (\<exists>x. Cosine_Similarity results ! k = Finite x \<and> 1/2 < x)) \<and>
         (Result results ! k \<noteq> ''Passed'' \<longrightarrow> Result results ! k = ''Failed'') \<and>
         (Cosine_Similarity results ! k = Finite (1/2) \<longrightarrow> Result results ! k = ''Failed'')"
proof -
  let ?cs = "Cosine_Similarity results"
  have len: "length ?cs = length dataframe"
    using process_sheet_shape(1) [OF assms(1)] by (simp add: list_all2_lengthD)
  have r: "Result results =
           map (\<lambda>c. if float_gt c (Finite (1/2)) then ''Passed'' else ''Failed'') ?cs"
    by (rule process_sheet_shape(4) [OF assms(1)])
  have lr: "length (Result results) = length dataframe"
    by (subst r) (simp add: len)
  have k: "k < length ?cs" using assms(2) len by simp
  have nth: "Result results ! k =
               (if float_gt (?cs ! k) (Finite (1/2)) then ''Passed'' else ''Failed'')"
    by (subst r) (simp add: k)
  have a: "(Result results ! k = ''Passed'') =
           (?cs ! k = PosInf \<or> (\<exists>x. ?cs ! k = Finite x \<and> 1/2 < x))"
    unfolding nth float_gt_half [symmetric] by simp
  have b: "Result results ! k \<noteq> ''Passed'' \<longrightarrow> Result results ! k = ''Failed''"
    unfolding nth by simp
  have c: "?cs ! k = Finite (1/2) \<longrightarrow> Result results ! k = ''Failed''"
    unfolding nth by simp
  show ?thesis using lr len a b c by blast
qed

theorem verdict_passed_iff_above_half_witness:
  "process_sheet example_env ''Sheet1''
       (parse [example_row (Some ''Hello World'') (Some ''hello world''),
               example_row (Some ''Hello'') (Some ''World'')]) initial_state =
     (Inr \<lparr>Sheet_Name = [''Sheet1'', ''Sheet1''], Row = [1, 2],
           Cosine_Similarity = [Finite 1, Finite (1/2)],
           Result = [''Passed'', ''Failed'']\<rparr>,
      initial_state\<lparr>vectorizer_calls :=
        [(''hello world'', ''hello world''), (''hello'', ''world'')]\<rparr>) \<and>
   (1::nat) < length (parse [example_row (Some ''Hello World'') (Some ''hello world''),
               example_row (Some ''Hello'') (Some ''World'')]) \<and>
   ([''Passed'', ''Failed''] ! 1 = ''Passed'') =
      ([Finite 1, Finite (1/2)] ! 1 = PosInf \<or>
       (\<exists>x. [Finite 1, Finite (1/2)] ! 1 = Finite x \<and> 1/2 < x)) \<and>
   [Finite 1, Finite (1/2)] ! 1 = Finite (1/2) \<and> [''Passed'', ''Failed''] ! 1 = ''Failed''"
proof -
  let ?df = "parse [example_row (Some ''Hello World'') (Some ''hello world''),
               example_row (Some ''Hello'') (Some ''World'')]"
  have run: "process_sheet example_env ''Sheet1'' ?df initial_state =
     (Inr \<lparr>Sheet_Name = [''Sheet1'', ''Sheet1''], Row = [1, 2],
           Cosine_Similarity = [Finite 1, Finite (1/2)],
           Result = [''Passed'', ''Failed'']\<rparr>,
      initial_state\<lparr>vectorizer_calls :=
        [(''hello world'', ''hello world''), (''hello'', ''world'')]\<rparr>)"
    by code_simp
  have k: "(1::nat) < length ?df"
    by (simp add: parse_def)
  from verdict_passed_iff_above_half [OF run k] run k show ?thesis
    by simp
qed

section \<open>Rows with an empty side\<close>

text \<open>
  Claim C5. When one of the two cell values of a row is null, or normalises to the empty
  string, the score recorded for the row is exactly 0.0 and its verdict is \<^verbatim>\<open>Failed\<close>.
  The scorer returns 0.0 for that pair from any state \<open>t\<close> and leaves the state as it
  was, so the vectorizer is not called; and among the vectorizer calls made while the
  sheet was processed there is none with the pair of this row.
\<close>

theorem empty_side_scores_zero_and_fails:
  assumes "process_sheet env sheet_name dataframe s = (Inr results, s')"
      and "k < length dataframe"
      and "getitem (snd (dataframe ! k)) column1 = Inr answer1"
      and "getitem (snd (dataframe ! k)) column2 = Inr answer2"
      and "isnull env answer1 \<or> isnull env answer2 \<or>
           normalize_answer env answer1 = [] \<or> normalize_answer env answer2 = []"
  shows "Cosine_Similarity results ! k = Finite 0 \<and>
         Result results ! k = ''Failed'' \<and>
         calculate_similarity env answer1 answer2 t = (Inr (Finite 0), t) \<and>
         (normalize_answer env answer1, normalize_answer env answer2)
           \<notin> set (drop (length (vectorizer_calls s)) (vectorizer_calls s'))"
proof -
  let ?cs = "Cosine_Similarity results"
  have e: "normalize_answer env answer1 = [] \<or> normalize_answer env answer2 = []"
    using assms(5) by (auto simp: normalize_answer_def)
  have all: "list_all2
            (\<lambda>(index, row) c. \<exists>v1 v2.
                getitem row column1 = Inr v1 \<and> getitem row column2 = Inr v2 \<and>
                (if normalize_answer env v1 \<noteq> [] \<and> normalize_answer env v2 \<noteq> []
                 then tfidf_linear_kernel env (normalize_answer env v1) (normalize_answer env v2)
                 else Inr (Finite 0)) = Inr c)
            dataframe ?cs"
    by (rule process_sheet_shape(1) [OF assms(1)])
  have len: "length ?cs = length dataframe"
    using all by (simp add: list_all2_lengthD)
  obtain index row where d: "dataframe ! k = (index, row)" by force
  from list_all2_nthD [OF all assms(2)] obtain v1 v2 where
    g1: "getitem row column1 = Inr v1" and g2: "getitem row column2 = Inr v2" and
    v: "(if normalize_answer env v1 \<noteq> [] \<and> normalize_answer env v2 \<noteq> []
         then tfidf_linear_kernel env (normalize_answer env v1) (normalize_answer env v2)
         else Inr (Finite 0)) = Inr (?cs ! k)"
    unfolding d by auto
  have "v1 = answer1" "v2 = answer2"
    using assms(3,4) g1 g2 by (simp_all add: d)
  with v e have zero: "?cs ! k = Finite 0"
    by auto
  have r: "Result results =
           map (\<lambda>c. if float_gt c (Finite (1/2)) then ''Passed'' else ''Failed'') ?cs"
    by (rule process_sheet_shape(4) [OF assms(1)])
  have k: "k < length ?cs" using assms(2) len by simp
  have "Result results ! k =
               (if float_gt (?cs ! k) (Finite (1/2)) then ''Passed'' else ''Failed'')"
    by (subst r) (simp add: k)
  then have failed: "Result results ! k = ''Failed''"
    by (simp add: zero)
  have unchanged: "calculate_similarity env answer1 answer2 t = (Inr (Finite 0), t)"
    by (rule calculate_similarity_empty [OF e])
  have notin: "(normalize_answer env answer1, normalize_answer env answer2)
           \<notin> set (drop (length (vectorizer_calls s)) (vectorizer_calls s'))"
    by (rule nonempty_calls_added_notin [OF process_sheet_calls [OF assms(1)] e])
  show ?thesis using zero failed unchanged notin by blast
qed

theorem empty_side_scores_zero_and_fails_witness:
  "process_sheet example_env ''Sheet1''
       (parse [example_row (Some ''Hello World'') (Some ''hello world''),
               example_row (Some ''Hello'') None]) initial_state =
     (Inr \<lparr>Sheet_Name = [''Sheet1'', ''Sheet1''], Row = [1, 2],
           Cosine_Similarity = [Finite 1, Finite 0],
           Result = [''Passed'', ''Failed'']\<rparr>,
      initial_state\<lparr>vectorizer_calls := [(''hello world'', ''hello world'')]\<rparr>) \<and>
   isnull example_env None \<and>
   [Finite 1, Finite 0] ! 1 = Finite 0 \<and>
   [''Passed'', ''Failed''] ! 1 = ''Failed'' \<and>
   calculate_similarity example_env (Some ''Hello'') None initial_state =
     (Inr (Finite 0), initial_state) \<and>
   (normalize_answer example_env (Some ''Hello''), normalize_answer example_env None)
     \<notin> set (drop (length (vectorizer_calls initial_state)) [(''hello world'', ''hello world'')])"
proof -
  let ?df = "parse [example_row (Some ''Hello World'') (Some ''hello world''),
               example_row (Some ''Hello'') None]"
  have run: "process_sheet example_env ''Sheet1'' ?df initial_state =
     (Inr \<lparr>Sheet_Name = [''Sheet1'', ''Sheet1''], Row = [1, 2],
           Cosine_Similarity = [Finite 1, Finite 0],
           Result = [''Passed'', ''Failed'']\<rparr>,
      initial_state\<lparr>vectorizer_calls := [(''hello world'', ''hello world'')]\<rparr>)"
    by code_simp
  have k: "(1::nat) < length ?df"
    by (simp add: parse_def)
  have g1: "getitem (snd (?df ! 1)) column1 = Inr (Some ''Hello'')"
    by code_simp
  have g2: "getitem (snd (?df ! 1)) column2 = Inr None"
    by code_simp
  have n: "isnull example_env None"
    by (simp add: example_env_def)
  have hyp: "isnull example_env (Some ''Hello'') \<or> isnull example_env None \<or>
           normalize_answer example_env (Some ''Hello'') = [] \<or>
           normalize_answer example_env None = []"
    using n by simp
  from empty_side_scores_zero_and_fails [OF run k g1 g2 hyp, of initial_state] run n
  show ?thesis by simp
qed

section \<open>The row number of a result row\<close>

text \<open>
  Claim C8, as the specification states it, fails: the row number is computed from the
  index label of the row, so a table whose labels are 5 and 7 gives the row numbers 6
  and 8, not 1 and 2.
\<close>

theorem row_number_not_position_counterexample:
  "process_sheet example_env ''Sheet1''
       [(5, example_row (Some ''Hello'') None), (7, example_row None None)] initial_state =
     (Inr \<lparr>Sheet_Name = [''Sheet1'', ''Sheet1''], Row = [6, 8],
           Cosine_Similarity = [Finite 0, Finite 0],
           Result = [''Failed'', ''Failed'']\<rparr>,
      initial_state) \<and>
   [6, 8] ! 0 \<noteq> (1::int) \<and> [6, 8] ! 1 \<noteq> (2::int)"
proof -
  have "process_sheet example_env ''Sheet1''
       [(5, example_row (Some ''Hello'') None), (7, example_row None None)] initial_state =
     (Inr \<lparr>Sheet_Name = [''Sheet1'', ''Sheet1''], Row = [6, 8],
           Cosine_Similarity = [Finite 0, Finite 0],
           Result = [''Failed'', ''Failed'']\<rparr>,
      initial_state)"
    by code_simp
  then show ?thesis by simp
qed

text \<open>
  Claim C8, amended. In the results of a sheet, the row number of the k-th result row
  (counting from 0 here) is the index label of the k-th row of the table plus one. For a
  table that \<open>parse\<close> returns, whose labels are 0, 1, 2, ..., this is the position
  of the row counted from 1.
\<close>

theorem row_number_is_index_plus_one:
  assumes "process_sheet env sheet_name dataframe s = (Inr results, s')"
      and "k < length dataframe"
  shows "length (Row results) = length dataframe \<and>
         Row results ! k = fst (dataframe ! k) + 1 \<and>
         (dataframe = parse rows \<longrightarrow> Row results ! k = int k + 1)"
proof -
  have r: "Row results = map (\<lambda>(index, row). index + 1) dataframe"
    by (rule process_sheet_shape(3) [OF assms(1)])
  have len: "length (Row results) = length dataframe"
    by (simp add: r)
  have nth: "Row results ! k = fst (dataframe ! k) + 1"
    using assms(2) by (simp add: r case_prod_unfold)
  have "Row results ! k = int k + 1" if "dataframe = parse rows"
    using nth assms(2) that by (simp add: parse_nth length_parse)
  with len nth show ?thesis by blast
qed

theorem row_number_is_index_plus_one_witness:
  "process_sheet example_env ''Sheet1''
       (parse [example_row (Some ''Hello World'') (Some ''hello world''),
               example_row (Some ''Hello'') None]) initial_state =
     (Inr \<lparr>Sheet_Name = [''Sheet1'', ''Sheet1''], Row = [1, 2],
           Cosine_Similarity = [Finite 1, Finite 0],
           Result = [''Passed'', ''Failed'']\<rparr>,
      initial_state\<lparr>vectorizer_calls := [(''hello world'', ''hello world'')]\<rparr>) \<and>
   (1::nat) < length (parse [example_row (Some ''Hello World'') (Some ''hello world''),
               example_row (Some ''Hello'') None]) \<and>
   [1, 2] ! 1 = fst (parse [example_row (Some ''Hello World'') (Some ''hello world''),
               example_row (Some ''Hello'') None] ! 1) + 1 \<and>
   [1, 2] ! 1 = int 1 + 1"
proof -
  let ?rows = "[example_row (Some ''Hello World'') (Some ''hello world''),
               example_row (Some ''Hello'') None]"
  have run: "process_sheet example_env ''Sheet1'' (parse ?rows) initial_state =
     (Inr \<lparr>Sheet_Name = [''Sheet1'', ''Sheet1''], Row = [1, 2],
           Cosine_Similarity = [Finite 1, Finite 0],
           Result = [''Passed'', ''Failed'']\<rparr>,
      initial_state\<lparr>vectorizer_calls := [(''hello world'', ''hello world'')]\<rparr>)"
    by code_simp
  have k: "(1::nat) < length (parse ?rows)"
    by (simp add: parse_def)
  from row_number_is_index_plus_one [OF run k, of ?rows] run k show ?thesis
    by simp
qed

section \<open>Exactly one empty side\<close>

text \<open>
  Claim C3, as the specification states it, fails: with one side empty and the other
  not, the scorer returns 0.0 and the vectorizer has not been called.
\<close>

theorem one_empty_side_skips_vectorizer_counterexample:
  "normalize_answer example_env None = [] \<and>
   normalize_answer example_env (Some ''Hello'') = ''hello'' \<and>
   fst (calculate_similarity example_env (Some ''Hello'') None initial_state) = Inr (Finite 0) \<and>
   vectorizer_calls (snd (calculate_similarity example_env (Some ''Hello'') None initial_state)) = []"
  by code_simp

text \<open>
  Claim C3, amended. When exactly one of the two normalised strings is empty, the scorer
  returns 0.0 at once: the state is unchanged, so the vectorizer is not called.
\<close>

theorem one_empty_side_short_circuits:
  assumes "(normalize_answer env answer1 = []) \<noteq> (normalize_answer env answer2 = [])"
  shows "calculate_similarity env answer1 answer2 s = (Inr (Finite 0), s) \<and>
         vectorizer_calls (snd (calculate_similarity env answer1 answer2 s)) = vectorizer_calls s"
proof -
  from assms have "normalize_answer env answer1 = [] \<or> normalize_answer env answer2 = []"
    by blast
  from calculate_similarity_empty [OF this] show ?thesis by simp
qed

theorem one_empty_side_short_circuits_witness:
  "(normalize_answer example_env (Some ''Hello'') = []) \<noteq> (normalize_answer example_env None = []) \<and>
   calculate_similarity example_env (Some ''Hello'') None initial_state =
     (Inr (Finite 0), initial_state) \<and>
   vectorizer_calls (snd (calculate_similarity example_env (Some ''Hello'') None initial_state)) =
     vectorizer_calls initial_state"
proof -
  have h: "(normalize_answer example_env (Some ''Hello'') = []) \<noteq>
           (normalize_answer example_env None = [])"
    by code_simp
  from one_empty_side_short_circuits [OF h, of initial_state] h show ?thesis
    by simp
qed

section \<open>A failing sheet\<close>

text \<open>
  The loop over the sheets keeps the logger and writes nothing; with a logger, whether a
  sheet fails, and with which exception, does not depend on the state it is processed in.
\<close>

lemma process_sheets_keeps:
  "process_sheets env xls acc s = (r, s') \<Longrightarrow>
     logger s' = logger s \<and> written s' = written s \<and> excel_file_path s' = excel_file_path s"
proof (induction xls arbitrary: acc s)
  case Nil
  then show ?case by simp
next
  case (Cons x xls)
  obtain sheet_name parsed where x: "x = (sheet_name, parsed)" by (cases x)
  from Cons.prems show ?case
    unfolding x
    by (auto split: sum.splits prod.splits dest!: process_sheet_keeps Cons.IH)
qed

lemma process_sheets_fails:
  assumes "logger s" and "logger s0"
      and "(sheet_name, Inr rows) \<in> set xls"
      and "fst (process_sheet env sheet_name (parse rows) s0) = Inl e"
  shows "\<exists>e'. fst (process_sheets env xls acc s) = Inl e' \<and>
           ((\<exists>n. (n, Inl e') \<in> set xls) \<or>
            (\<exists>n r. (n, Inr r) \<in> set xls \<and> fst (process_sheet env n (parse r) s0) = Inl e'))"
  using assms(1,3)
proof (induction xls arbitrary: acc s)
  case Nil
  then show ?case by simp
next
  case (Cons x xls)
  obtain n parsed where x: "x = (n, parsed)" by (cases x)
  show ?case
  proof (cases parsed)
    case (Inl e1)
    then show ?thesis by (auto simp: x)
  next
    case (Inr r)
    obtain res s1 where p: "process_sheet env n (parse r) s = (res, s1)" by force
    have same: "fst (process_sheet env n (parse r) s0) = res"
      using process_sheet_fst [OF assms(2) Cons.prems(1), of env n "parse r"] p by simp
    show ?thesis
    proof (cases res)
      case (Inl e1)
      have "fst (process_sheets env (x # xls) acc s) = Inl e1"
        by (simp add: x Inr p Inl)
      moreover have "(n, Inr r) \<in> set (x # xls)"
        by (simp add: x Inr)
      moreover have "fst (process_sheet env n (parse r) s0) = Inl e1"
        using same Inl by simp
      ultimately show ?thesis by blast
    next
      case ok: (Inr sheet_results)
      have l1: "logger s1"
        using process_sheet_keeps [OF p] Cons.prems(1) by simp
      have "(sheet_name, Inr rows) \<noteq> x"
        using assms(4) same ok by (auto simp: x Inr)
      then have mem: "(sheet_name, Inr rows) \<in> set xls"
        using Cons.prems(2) by auto
      from Cons.IH [OF l1 mem, of "acc @ [sheet_results]"] obtain e' where
        f: "fst (process_sheets env xls (acc @ [sheet_results]) s1) = Inl e'" and
        w: "(\<exists>n. (n, Inl e') \<in> set xls) \<or>
            (\<exists>n r. (n, Inr r) \<in> set xls \<and> fst (process_sheet env n (parse r) s0) = Inl e')"
        by blast
      have "fst (process_sheets env (x # xls) acc s) = Inl e'"
        using f by (simp add: x Inr p ok)
      moreover have "(\<exists>n. (n, Inl e') \<in> set (x # xls)) \<or>
            (\<exists>n r. (n, Inr r) \<in> set (x # xls) \<and>
               fst (process_sheet env n (parse r) s0) = Inl e')"
        using w by auto
      ultimately show ?thesis by blast
    qed
  qed
qed

text \<open>
  The example of the claim: a row without one of the two columns raises \<^verbatim>\<open>KeyError\<close>
  as soon as it is reached.
\<close>

lemma process_sheet_missing_column1:
  assumes "logger s" and "map_of row column1 = None"
  shows "fst (process_sheet env sheet_name ((index, row) # rest) s) = Inl (KeyError column1)"
  using assms by (simp add: process_sheet_def getitem_def log_and_reraise_logger)

lemma process_sheet_missing_column2:
  assumes "logger s" and "map_of row column1 = Some v" and "map_of row column2 = None"
  shows "fst (process_sheet env sheet_name ((index, row) # rest) s) = Inl (KeyError column2)"
  using assms by (simp add: process_sheet_def getitem_def log_and_reraise_logger)

text \<open>
  Claim C7. If the processing of some sheet of the workbook raises an exception, then
  \<^verbatim>\<open>analyze_excel_file\<close> raises: the exception is the one of a sheet that failed to
  parse or to be processed (the first such sheet stops the loop), and no workbook has
  been written.
\<close>

theorem failing_sheet_fails_run_without_output:
  assumes "logger s"
      and "ExcelFile env (excel_file_path s) = Inr xls"
      and "(sheet_name, Inr rows) \<in> set xls"
      and "fst (process_sheet env sheet_name (parse rows) s) = Inl e"
  shows "\<exists>e'. fst (analyze_excel_file env s) = Inl e' \<and>
           ((\<exists>n. (n, Inl e') \<in> set xls) \<or>
            (\<exists>n r. (n, Inr r) \<in> set xls \<and> fst (process_sheet env n (parse r) s) = Inl e')) \<and>
           written (snd (analyze_excel_file env s)) = written s"
proof -
  from process_sheets_fails [OF assms(1) assms(1) assms(3) assms(4), of "[]"] obtain e' where
    f: "fst (process_sheets env xls [] s) = Inl e'" and
    w: "(\<exists>n. (n, Inl e') \<in> set xls) \<or>
        (\<exists>n r. (n, Inr r) \<in> set xls \<and> fst (process_sheet env n (parse r) s) = Inl e')"
    by blast
  obtain s1 where p: "process_sheets env xls [] s = (Inl e', s1)"
    using f by (cases "process_sheets env xls [] s") simp
  have body: "analyze_excel_file_body env s = (Inl e', s1)"
    by (simp add: analyze_excel_file_body_def assms(2) p)
  have k: "logger s1" "written s1 = written s"
    using process_sheets_keeps [OF p] assms(1) by simp_all
  have "analyze_excel_file env s =
          (Inl e', s1\<lparr>log_file := log_file s1 @
             [(ERROR, ''An error occurred during analysis: '' @ str_of_error e')]\<rparr>)"
    by (simp add: analyze_excel_file_def body log_and_reraise_logger k(1))
  then have "fst (analyze_excel_file env s) = Inl e'"
        and "written (snd (analyze_excel_file env s)) = written s"
    using k(2) by simp_all
  with w show ?thesis by blast
qed

theorem failing_sheet_fails_run_without_output_witness:
  "logger example_state \<and>
   ExcelFile incomplete_env (excel_file_path example_state) = Inr incomplete_workbook \<and>
   (''Sheet2'', Inr [[(''Active Voice'', Some ''Hello'')]]) \<in> set incomplete_workbook \<and>
   fst (process_sheet incomplete_env ''Sheet2'' (parse [[(''Active Voice'', Some ''Hello'')]])
          example_state) = Inl (KeyError ''Passive Voice'') \<and>
   (\<exists>e'. fst (analyze_excel_file incomplete_env example_state) = Inl e' \<and>
      ((\<exists>n. (n, Inl e') \<in> set incomplete_workbook) \<or>
       (\<exists>n r. (n, Inr r) \<in> set incomplete_workbook \<and>
          fst (process_sheet incomplete_env n (parse r) example_state) = Inl e')) \<and>
      written (snd (analyze_excel_file incomplete_env example_state)) = written example_state) \<and>
   fst (analyze_excel_file incomplete_env example_state) = Inl (KeyError ''Passive Voice'') \<and>
   written example_state = []"
proof -
  have l: "logger example_state"
    by (simp add: example_state_def)
  have x: "ExcelFile incomplete_env (excel_file_path example_state) = Inr incomplete_workbook"
    by (simp add: incomplete_env_def)
  have m: "(''Sheet2'', Inr [[(''Active Voice'', Some ''Hello'')]]) \<in> set incomplete_workbook"
    by (simp add: incomplete_workbook_def)
  have f: "fst (process_sheet incomplete_env ''Sheet2''
                  (parse [[(''Active Voice'', Some ''Hello'')]]) example_state) =
             Inl (KeyError ''Passive Voice'')"
    by code_simp
  have a: "fst (analyze_excel_file incomplete_env example_state) = Inl (KeyError ''Passive Voice'')"
    by code_simp
  have w: "written example_state = []"
    by (simp add: example_state_def initial_state_def)
  from failing_sheet_fails_run_without_output [OF l x m f] l x m f a w show ?thesis
    by blast
qed

section \<open>A workbook without sheets\<close>

text \<open>
  Claim C10. If the workbook has no sheets, \<^verbatim>\<open>analyze_excel_file\<close> raises the
  \<^verbatim>\<open>IndexError\<close> of \<^verbatim>\<open>all_results[0]\<close>, no workbook has been written, and the
  outcome is the same whatever the writer would have done: it is never reached.
\<close>

theorem empty_workbook_raises_before_writing:
  assumes "logger s"
      and "ExcelFile env (excel_file_path s) = Inr []"
  shows "fst (analyze_excel_file env s) = Inl (IndexError ''list index out of range'') \<and>
         written (snd (analyze_excel_file env s)) = written s \<and>
         analyze_excel_file (env\<lparr>ExcelWriter := w\<rparr>) s = analyze_excel_file env s"
proof -
  have body: "analyze_excel_file_body env s = (Inl (IndexError ''list index out of range''), s)"
    by (simp add: analyze_excel_file_body_def assms(2) results_df_def)
  have body': "analyze_excel_file_body (env\<lparr>ExcelWriter := w\<rparr>) s =
                 (Inl (IndexError ''list index out of range''), s)"
    by (simp add: analyze_excel_file_body_def assms(2) results_df_def)
  have a: "analyze_excel_file env s =
          (Inl (IndexError ''list index out of range''),
           s\<lparr>log_file := log_file s @
             [(ERROR, ''An error occurred during analysis: list index out of range'')]\<rparr>)"
    by (simp add: analyze_excel_file_def body log_and_reraise_logger assms(1))
  have b: "analyze_excel_file (env\<lparr>ExcelWriter := w\<rparr>) s = analyze_excel_file env s"
    by (simp add: analyze_excel_file_def body body')
  show ?thesis using a b by simp
qed

theorem empty_workbook_raises_before_writing_witness:
  "logger example_state \<and>
   ExcelFile no_sheets_env (excel_file_path example_state) = Inr [] \<and>
   fst (analyze_excel_file no_sheets_env example_state) =
     Inl (IndexError ''list index out of range'') \<and>
   written (snd (analyze_excel_file no_sheets_env example_state)) = written example_state \<and>
   analyze_excel_file (no_sheets_env\<lparr>ExcelWriter := (\<lambda>p. Some (LibraryError ''disk full''))\<rparr>)
       example_state =
     analyze_excel_file no_sheets_env example_state"
proof -
  have l: "logger example_state"
    by (simp add: example_state_def)
  have x: "ExcelFile no_sheets_env (excel_file_path example_state) = Inr []"
    by (simp add: no_sheets_env_def)
  from empty_workbook_raises_before_writing [OF l x] l x show ?thesis
    by blast
qed

section \<open>Validation of the path\<close>

text \<open>
  With a logger, a failed validation is logged with its own message and raised again.
  Without one, the handler itself fails, and this is the case of \<^verbatim>\<open>__init__\<close>,
  which validates the path before it assigns the logger: whatever the validation
  raised, the run ends with the \<^verbatim>\<open>AttributeError\<close> and nothing is logged.
\<close>

lemma validate_excel_path_logged:
  assumes "logger s" and "validate_excel_path_body env path = Inl e"
  shows "validate_excel_path env path s =
           (Inl e, s\<lparr>log_file := log_file s @
              [(ERROR, ''Error validating Excel path: '' @ str_of_error e)]\<rparr>)"
  using assms by (simp add: validate_excel_path_def log_and_reraise_logger)

lemma validate_excel_path_no_logger:
  assumes "\<not> logger s" and "validate_excel_path_body env path = Inl e"
  shows "validate_excel_path env path s = (Inl no_logger, s)"
  using assms by (simp add: validate_excel_path_def log_and_reraise_no_logger)

lemma init_invalid_path:
  assumes "validate_excel_path_body env (getenv_EXCEL_FILE_PATH env) = Inl e"
  shows "init env initial_state = (Inl no_logger, initial_state)"
proof -
  have "\<not> logger initial_state"
    by (simp add: initial_state_def)
  from validate_excel_path_no_logger [OF this assms] show ?thesis
    by (simp add: init_def)
qed

lemma run_invalid_path:
  assumes "validate_excel_path_body env (getenv_EXCEL_FILE_PATH env) = Inl e"
  shows "run env = (Inl no_logger, initial_state)"
  by (simp add: run_def init_invalid_path [OF assms])

text \<open>
  Claim C2, on the code. For a path that does not exist, a directory and a file with
  another extension, the validation itself raises three different exceptions, but the
  run ends each time with the same \<^verbatim>\<open>AttributeError\<close> of the missing logger, in the
  initial state: the log file has received no record.
\<close>

theorem invalid_path_error_masked_and_not_logged:
  "validate_excel_path_body (env_with_path ''/data/missing.xlsx'') (Some ''/data/missing.xlsx'') =
     Inl (FileNotFoundError ''File not found: /data/missing.xlsx'') \<and>
   run (env_with_path ''/data/missing.xlsx'') = (Inl no_logger, initial_state) \<and>
   validate_excel_path_body (env_with_path ''/data'') (Some ''/data'') =
     Inl (ValueError ''Not a file: /data'') \<and>
   run (env_with_path ''/data'') = (Inl no_logger, initial_state) \<and>
   validate_excel_path_body (env_with_path ''/data/notes.txt'') (Some ''/data/notes.txt'') =
     Inl (ValueError ''Not a valid Excel file: /data/notes.txt'') \<and>
   run (env_with_path ''/data/notes.txt'') = (Inl no_logger, initial_state) \<and>
   log_file initial_state = []"
  by code_simp

section \<open>The path of the report\<close>

text \<open>
  A path in which \<^verbatim>\<open>.xlsx\<close> does not occur, in exactly this spelling, is the path of
  its own report.
\<close>

lemma replace_nonempty_absent:
  "(\<And>k. take (length old) (drop k s) \<noteq> old) \<Longrightarrow> replace_nonempty old new s = s"
proof (induction s)
  case Nil
  then show ?case by simp
next
  case (Cons c cs)
  have here: "take (length old) (c # cs) \<noteq> old"
    using Cons.prems [of 0] by simp
  have "take (length old) (drop k cs) \<noteq> old" for k
    using Cons.prems [of "Suc k"] by simp
  then have "replace_nonempty old new cs = cs"
    by (rule Cons.IH)
  with here show ?case by simp
qed

lemma output_path_unchanged:
  assumes "\<And>k. take (length ''.xlsx'') (drop k (excel_file_path s)) \<noteq> ''.xlsx''"
  shows "str_replace (excel_file_path s) ''.xlsx'' ''-results.xlsx'' = excel_file_path s"
proof -
  have "replace_nonempty ''.xlsx'' ''-results.xlsx'' (excel_file_path s) = excel_file_path s"
    by (rule replace_nonempty_absent) (rule assms)
  then show ?thesis by (simp add: str_replace_def)
qed

text \<open>
  Claim C1, on the code. The path \<^verbatim>\<open>/data/book.xls\<close> passes the validation and the
  run succeeds, but \<^verbatim>\<open>replace(".xlsx", "-results.xlsx")\<close> finds nothing to replace
  in it: the report is written to the path of the input workbook itself. For
  \<^verbatim>\<open>/data/book.xlsx\<close> the report goes to \<^verbatim>\<open>/data/book-results.xlsx\<close>.
\<close>

theorem xls_report_path_equals_input_path:
  "validate_excel_path_body (env_with_path ''/data/book.xls'') (Some ''/data/book.xls'') =
     Inr ''/data/book.xls'' \<and>
   fst (run (env_with_path ''/data/book.xls'')) = Inr () \<and>
   map fst (written (snd (run (env_with_path ''/data/book.xls'')))) = [''/data/book.xls''] \<and>
   map fst (written (snd (run (env_with_path ''/data/book.xlsx'')))) = [''/data/book-results.xlsx'']"
  by code_simp

section \<open>The kernel in exact arithmetic\<close>




















lemma tfidf_kernel_no_terms:
  assumes "analyze stop_words a = []" and "analyze stop_words b = []"
  shows "tfidf_kernel ar stop_words a b =
           Inl (ValueError ''empty vocabulary; perhaps the documents only contain stop words'')"
  using assms by (simp add: tfidf_kernel_def vocabulary_def)

section \<open>The score of identical strings\<close>



lemma calculate_similarity_kernel_raises:
  assumes "normalize_answer env answer1 \<noteq> []" and "normalize_answer env answer2 \<noteq> []"
      and "tfidf_linear_kernel env (normalize_answer env answer1) (normalize_answer env answer2) = Inl e"
      and "logger s"
  shows "fst (calculate_similarity env answer1 answer2 s) = Inl e"
  using assms by (simp add: calculate_similarity_def Let_def log_and_reraise_logger)




section \<open>The range of the score\<close>





end
